theory Spec2Isabelle
  imports
    Main
    "HOL-Library.AList"
    "HOL-Library.Char_ord"
    "HOL-Library.List_Lexorder"
    "HOL-Library.Sublist"
begin

section \<open>The video player of \<^verbatim>\<open>video_player.py\<close> and \<^verbatim>\<open>video_playlist.py\<close>\<close>

text \<open>
  Every method of \<^verbatim>\<open>VideoPlayer\<close> prints and mutates the player in place. A method is
  modelled as a function from the player (and the method's arguments) to the list of the
  strings it prints, one element for each \<^verbatim>\<open>print\<close> call, paired with the player
  afterwards.
\<close>

subsection \<open>Strings\<close>

text \<open>
  Strings are lists of 8-bit characters. \<^verbatim>\<open>str.lower\<close> is modelled on the ASCII letters
  \<^verbatim>\<open>A\<close> .. \<^verbatim>\<open>Z\<close> (codes 65 .. 90); every other character is left as it is.
\<close>

definition lower_char :: "char \<Rightarrow> char" where
  "lower_char c =
     (let n = (of_char c :: nat) in if 65 \<le> n \<and> n \<le> 90 then char_of (n + 32) else c)"

definition lower :: "string \<Rightarrow> string" where
  "lower str = map lower_char str"

text \<open>\<^verbatim>\<open>sep.join(xs)\<close>.\<close>

fun join :: "string \<Rightarrow> string list \<Rightarrow> string" where
  "join sep [] = []"
| "join sep [x] = x"
| "join sep (x # y # ys) = x @ sep @ join sep (y # ys)"

text \<open>The decimal numeral that an f-string prints for a non-negative integer.\<close>

definition digit_char :: "nat \<Rightarrow> char" where
  "digit_char d = char_of (48 + d)"

fun str_nat :: "nat \<Rightarrow> string" where
  "str_nat n = (if n < 10 then [digit_char n] else str_nat (n div 10) @ [digit_char (n mod 10)])"

declare str_nat.simps [simp del]

subsection \<open>Videos, playlists and the player\<close>

text \<open>
  A \<^verbatim>\<open>Video\<close> object has a title, an id and tags, which never change, and a
  \<^verbatim>\<open>flag_reason\<close>, which \<^verbatim>\<open>flag_video\<close> and \<^verbatim>\<open>allow_video\<close> assign. The library holds
  one object for each id and everything else (the playing video, the playlists, the search
  results) holds references to these objects. The model keeps the aliasing by storing the
  mutable field apart from the object: a \<open>video\<close> is the immutable part of the object, and
  the field \<open>flag_reasons\<close> of the player maps every object, named by its id, to its current
  \<^verbatim>\<open>flag_reason\<close>. An assignment to \<^verbatim>\<open>video.flag_reason\<close> is then seen through every
  reference to the video, as in the source.
\<close>

record video =
  title :: string
  video_id :: string
  tags :: "string list"

text \<open>
  \<^verbatim>\<open>Playlist\<close>: the title as given at creation and the dictionary from video id to video,
  an association list in insertion order.
\<close>

record playlist =
  playlist_title :: string
  videos :: "(string \<times> video) list"

datatype py_error = KeyError | ValueError | IndexError

definition Playlist :: "string \<Rightarrow> playlist" where
  "Playlist playlist_title_arg = \<lparr>playlist_title = playlist_title_arg, videos = []\<rparr>"

definition add_video :: "playlist \<Rightarrow> video \<Rightarrow> playlist" where
  "add_video p v = p\<lparr>videos := AList.update (video_id v) v (videos p)\<rparr>"

text \<open>\<^verbatim>\<open>dict.pop(key)\<close> raises \<^verbatim>\<open>KeyError\<close> when the key is absent.\<close>

definition remove_video :: "playlist \<Rightarrow> video \<Rightarrow> py_error + playlist" where
  "remove_video p v =
     (if map_of (videos p) (video_id v) = None then Inl KeyError
      else Inr (p\<lparr>videos := AList.delete (video_id v) (videos p)\<rparr>))"

definition reset_playlist :: "playlist \<Rightarrow> playlist" where
  "reset_playlist p = p\<lparr>videos := []\<rparr>"

text \<open>
  \<^verbatim>\<open>VideoPlayer\<close>. The fields \<open>video_library\<close> and \<open>flag_reasons\<close> stand for the
  \<^verbatim>\<open>VideoLibrary\<close> object and its videos; \<open>all_playlists\<close> is the dictionary from the
  lower-cased playlist name to the playlist, in insertion order. The status is \<^verbatim>\<open>None\<close>,
  \<^verbatim>\<open>1\<close> (playing) or \<^verbatim>\<open>0\<close> (paused).
\<close>

record video_player =
  video_library :: "video list"
  flag_reasons :: "string \<Rightarrow> string"
  currently_playing_video :: "video option"
  current_video_status :: "int option"
  all_playlists :: "(string \<times> playlist) list"

text \<open>
  Modelled from the spec: \<^verbatim>\<open>VideoLibrary\<close> and \<^verbatim>\<open>Video\<close> (\<^verbatim>\<open>video_library.py\<close> and
  \<^verbatim>\<open>video.py\<close> are not among the sources). The catalog is a read-only lookup service:
  given an id it returns the video with that id or nothing, and it can be enumerated. An
  empty \<^verbatim>\<open>flag_reason\<close> means that the video is not flagged.
\<close>

definition get_video :: "video_player \<Rightarrow> string \<Rightarrow> video option" where
  "get_video s vid = find (\<lambda>v. video_id v = vid) (video_library s)"

definition get_all_videos :: "video_player \<Rightarrow> video list" where
  "get_all_videos s = video_library s"

definition flag_reason :: "video_player \<Rightarrow> video \<Rightarrow> string" where
  "flag_reason s v = flag_reasons s (video_id v)"

definition set_flag_reason :: "video_player \<Rightarrow> video \<Rightarrow> string \<Rightarrow> video_player" where
  "set_flag_reason s v r = s\<lparr>flag_reasons := (flag_reasons s)(video_id v := r)\<rparr>"

text \<open>\<^verbatim>\<open>VideoPlayer.__init__\<close>, for a library whose videos are not flagged.\<close>

definition init :: "video list \<Rightarrow> video_player" where
  "init lib =
     \<lparr>video_library = lib, flag_reasons = (\<lambda>_. ''''), currently_playing_video = None,
      current_video_status = None, all_playlists = []\<rparr>"

subsection \<open>Listing\<close>

definition formatted_video_info :: "video \<Rightarrow> string" where
  "formatted_video_info v =
     title v @ '' ('' @ video_id v @ '') ['' @ join '' '' (tags v) @ '']''"

definition number_of_videos :: "video_player \<Rightarrow> string list \<times> video_player" where
  "number_of_videos s =
     ([str_nat (length (get_all_videos s)) @ '' videos in the library''], s)"

definition video_flag_status :: "video_player \<Rightarrow> video \<Rightarrow> string" where
  "video_flag_status s v =
     (if flag_reason s v \<noteq> '''' then '' - FLAGGED (reason: '' @ flag_reason s v @ '')''
      else '''')"

definition show_all_videos :: "video_player \<Rightarrow> string list \<times> video_player" where
  "show_all_videos s =
     (let all_videos = sort_key title (get_all_videos s)
      in (''Here's a list of all available videos:''
            # map (\<lambda>v. formatted_video_info v @ video_flag_status s v) all_videos, s))"

subsection \<open>Playback\<close>

definition play_video :: "video_player \<Rightarrow> string \<Rightarrow> string list \<times> video_player" where
  "play_video s vid =
     (case get_video s vid of
        None \<Rightarrow> ([''Cannot play video: Video does not exist''], s)
      | Some video_to_play \<Rightarrow>
          if flag_reason s video_to_play \<noteq> '''' then
            ([''Cannot play video: Video is currently flagged (reason: ''
                @ flag_reason s video_to_play @ '')''], s)
          else
            ((case currently_playing_video s of
                None \<Rightarrow> []
              | Some cur \<Rightarrow> [''Stopping video: '' @ title cur])
             @ [''Playing video: '' @ title video_to_play],
             s\<lparr>currently_playing_video := Some video_to_play,
               current_video_status := Some 1\<rparr>))"

definition stop_video :: "video_player \<Rightarrow> string list \<times> video_player" where
  "stop_video s =
     (case currently_playing_video s of
        None \<Rightarrow> ([''Cannot stop video: No video is currently playing''], s)
      | Some cur \<Rightarrow>
          ([''Stopping video: '' @ title cur],
           s\<lparr>currently_playing_video := None, current_video_status := None\<rparr>))"

text \<open>
  \<^verbatim>\<open>random.choice\<close> draws an index below the length of its argument; the draw is the
  parameter \<open>r\<close>, reduced below the length.
\<close>

definition play_random_video :: "video_player \<Rightarrow> nat \<Rightarrow> string list \<times> video_player" where
  "play_random_video s r =
     (let all_videos = get_all_videos s;
          non_flagged_videos = filter (\<lambda>v. flag_reason s v = '''') all_videos
      in if length non_flagged_videos = 0 then ([''No videos available''], s)
         else play_video s
                (video_id (non_flagged_videos ! (r mod length non_flagged_videos))))"

definition pause_video :: "video_player \<Rightarrow> string list \<times> video_player" where
  "pause_video s =
     (case currently_playing_video s of
        None \<Rightarrow> ([''Cannot pause video: No video is currently playing''], s)
      | Some cur \<Rightarrow>
          if current_video_status s = Some 0 then
            ([''Video already paused: '' @ title cur], s)
          else
            ([''Pausing video: '' @ title cur], s\<lparr>current_video_status := Some 0\<rparr>))"

definition continue_video :: "video_player \<Rightarrow> string list \<times> video_player" where
  "continue_video s =
     (case currently_playing_video s of
        None \<Rightarrow> ([''Cannot continue video: No video is currently playing''], s)
      | Some cur \<Rightarrow>
          if current_video_status s = Some 1 then
            ([''Cannot continue video: Video is not paused''], s)
          else
            ([''Continuing video: '' @ title cur], s\<lparr>current_video_status := Some 1\<rparr>))"

definition show_playing :: "video_player \<Rightarrow> string list \<times> video_player" where
  "show_playing s =
     (case currently_playing_video s of
        None \<Rightarrow> ([''No video is currently playing''], s)
      | Some cur \<Rightarrow>
          (let current_video_info = formatted_video_info cur;
               current_video_info =
                 (if current_video_status s = Some 0 then current_video_info @ '' - PAUSED''
                  else current_video_info)
           in ([''Currently playing: '' @ current_video_info], s)))"

subsection \<open>Playlists\<close>

definition create_playlist :: "video_player \<Rightarrow> string \<Rightarrow> string list \<times> video_player" where
  "create_playlist s playlist_name =
     (let lower_case_playlist_name = lower playlist_name
      in if map_of (all_playlists s) lower_case_playlist_name \<noteq> None then
           ([''Cannot create playlist: A playlist with the same name already exists.''], s)
         else
           (let new_playlist = Playlist playlist_name
            in ([''Successfully created new playlist: '' @ playlist_name],
                s\<lparr>all_playlists :=
                    AList.update lower_case_playlist_name new_playlist (all_playlists s)\<rparr>)))"

definition add_to_playlist ::
  "video_player \<Rightarrow> string \<Rightarrow> string \<Rightarrow> string list \<times> video_player" where
  "add_to_playlist s playlist_name vid =
     (let lower_case_playlist_name = lower playlist_name
      in case map_of (all_playlists s) lower_case_playlist_name of
           None \<Rightarrow>
             ([''Cannot add video to '' @ playlist_name @ '': Playlist does not exist''], s)
         | Some pl \<Rightarrow>
             (case get_video s vid of
                None \<Rightarrow>
                  ([''Cannot add video to '' @ playlist_name @ '': Video does not exist''], s)
              | Some video_to_add \<Rightarrow>
                  if flag_reason s video_to_add \<noteq> '''' then
                    ([''Cannot add video to '' @ playlist_name
                        @ '': Video is currently flagged (reason: ''
                        @ flag_reason s video_to_add @ '')''], s)
                  else
                    (let playlist_videos = videos pl
                     in if map_of playlist_videos vid \<noteq> None then
                          ([''Cannot add video to '' @ playlist_name
                              @ '': Video already added''], s)
                        else
                          ([''Added video to '' @ playlist_name @ '': ''
                              @ title video_to_add],
                           s\<lparr>all_playlists :=
                               AList.update lower_case_playlist_name
                                 (add_video pl video_to_add) (all_playlists s)\<rparr>))))"

definition show_all_playlists :: "video_player \<Rightarrow> string list \<times> video_player" where
  "show_all_playlists s =
     (if all_playlists s = [] then ([''No playlists exist yet''], s)
      else
        (''Showing all playlists:''
           # map (\<lambda>pl. ''  '' @ playlist_title pl)
               (sort_key playlist_title (map snd (all_playlists s))), s))"

definition show_playlist :: "video_player \<Rightarrow> string \<Rightarrow> string list \<times> video_player" where
  "show_playlist s playlist_name =
     (let lower_case_playlist_name = lower playlist_name
      in case map_of (all_playlists s) lower_case_playlist_name of
           None \<Rightarrow>
             ([''Cannot show playlist '' @ playlist_name @ '': Playlist does not exist''], s)
         | Some required_playlist \<Rightarrow>
             if videos required_playlist = [] then
               ([''Showing playlist: '' @ playlist_name, ''  No videos here yet''], s)
             else
               ((''Showing playlist: '' @ playlist_name)
                  # map (\<lambda>(vid, v). formatted_video_info v @ video_flag_status s v)
                      (videos required_playlist), s))"

text \<open>
  \<^verbatim>\<open>remove_from_playlist\<close> calls \<^verbatim>\<open>Playlist.remove_video\<close>, whose \<^verbatim>\<open>pop\<close> can raise; the
  exception would leave the method, so the result is a sum.
\<close>

definition remove_from_playlist ::
  "video_player \<Rightarrow> string \<Rightarrow> string \<Rightarrow> py_error + string list \<times> video_player" where
  "remove_from_playlist s playlist_name vid =
     (let lower_case_playlist_name = lower playlist_name
      in case map_of (all_playlists s) lower_case_playlist_name of
           None \<Rightarrow>
             Inr ([''Cannot remove video from '' @ playlist_name
                     @ '': Playlist does not exist''], s)
         | Some pl \<Rightarrow>
             (case get_video s vid of
                None \<Rightarrow>
                  Inr ([''Cannot remove video from '' @ playlist_name
                          @ '': Video does not exist''], s)
              | Some video_to_add \<Rightarrow>
                  (let playlist_videos = videos pl
                   in if map_of playlist_videos vid = None then
                        Inr ([''Cannot remove video from '' @ playlist_name
                                @ '': Video is not in playlist''], s)
                      else
                        (case remove_video pl video_to_add of
                           Inl e \<Rightarrow> Inl e
                         | Inr pl' \<Rightarrow>
                             Inr ([''Removed video from '' @ playlist_name @ '': ''
                                     @ title video_to_add],
                                  s\<lparr>all_playlists :=
                                      AList.update lower_case_playlist_name pl'
                                        (all_playlists s)\<rparr>)))))"

definition clear_playlist :: "video_player \<Rightarrow> string \<Rightarrow> string list \<times> video_player" where
  "clear_playlist s playlist_name =
     (let lower_case_playlist_name = lower playlist_name
      in case map_of (all_playlists s) lower_case_playlist_name of
           None \<Rightarrow>
             ([''Cannot clear playlist '' @ playlist_name @ '': Playlist does not exist''], s)
         | Some pl \<Rightarrow>
             ([''Successfully removed all videos from '' @ playlist_name],
              s\<lparr>all_playlists :=
                  AList.update lower_case_playlist_name (reset_playlist pl)
                    (all_playlists s)\<rparr>))"

definition delete_playlist :: "video_player \<Rightarrow> string \<Rightarrow> string list \<times> video_player" where
  "delete_playlist s playlist_name =
     (let lower_case_playlist_name = lower playlist_name
      in if map_of (all_playlists s) lower_case_playlist_name = None then
           ([''Cannot delete playlist '' @ playlist_name @ '': Playlist does not exist''], s)
         else
           ([''Deleted playlist: '' @ playlist_name],
            s\<lparr>all_playlists := AList.delete lower_case_playlist_name (all_playlists s)\<rparr>))"

subsection \<open>Search and selection\<close>

text \<open>
  Modelled from the spec: \<^verbatim>\<open>CommandParser.process_command\<close> (\<^verbatim>\<open>command_parser.py\<close> is not
  among the sources). The line read after a search is a selection: when it is not a valid
  positive integer within 1 .. N, for N results, nothing is selected; when it is, the
  corresponding video is played by \<^verbatim>\<open>play_video\<close>. A valid integer is read here as a
  non-empty string of decimal digits, and a line that selects nothing as an exception, which
  the caller swallows.
\<close>

definition is_digit :: "char \<Rightarrow> bool" where
  "is_digit c = (48 \<le> (of_char c :: nat) \<and> (of_char c :: nat) \<le> 57)"

definition parse_int :: "string \<Rightarrow> nat option" where
  "parse_int str =
     (if str \<noteq> [] \<and> list_all is_digit str then
        Some (foldl (\<lambda>acc c. 10 * acc + ((of_char c :: nat) - 48)) 0 str)
      else None)"

definition process_command ::
  "video_player \<Rightarrow> string \<Rightarrow> video list \<Rightarrow> py_error + string list \<times> video_player" where
  "process_command s command matching_videos =
     (case parse_int command of
        None \<Rightarrow> Inl ValueError
      | Some n \<Rightarrow>
          if 1 \<le> n \<and> n \<le> length matching_videos then
            Inr (play_video s (video_id (matching_videos ! (n - 1))))
          else Inl IndexError)"

text \<open>The numbered lines that the loop over \<^verbatim>\<open>enumerate(matching_videos)\<close> prints.\<close>

definition numbered :: "video list \<Rightarrow> string list" where
  "numbered vs =
     map (\<lambda>(number, v). str_nat (number + 1) @ '') '' @ formatted_video_info v)
       (enumerate 0 vs)"

definition prompt :: string where
  "prompt =
     ''Would you like to play any of the above? If yes, specify the number of the video.''
     @ [CHR 0x0A]
     @ '' If your answer is not a valid number, we will assume it's a no.''"

text \<open>
  The second part of both search methods: the sorted copy is bound to the name
  \<^verbatim>\<open>maching_videos\<close>, which nothing reads; the loop and the parser take
  \<^verbatim>\<open>matching_videos\<close>. The parameter \<open>command\<close> is the line that \<^verbatim>\<open>input()\<close> returns, and
  the \<^verbatim>\<open>try\<close> swallows every exception of the parser. The call of \<^verbatim>\<open>input()\<close> stands
  before the \<^verbatim>\<open>try\<close>: a run in which no line can be read has no \<open>command\<close> and is not
  a value of this function.
\<close>

definition show_results ::
  "video_player \<Rightarrow> string \<Rightarrow> video list \<Rightarrow> string \<Rightarrow> string list \<times> video_player" where
  "show_results s query matching_videos command =
     (if length matching_videos = 0 then ([''No search results for '' @ query], s)
      else
        (let maching_videos = sort_key title matching_videos;
             out = (''Here are the results for '' @ query @ '':'')
                     # numbered matching_videos @ [prompt]
         in case process_command s command matching_videos of
              Inl e \<Rightarrow> (out, s)
            | Inr (out', s') \<Rightarrow> (out @ out', s')))"

definition search_videos ::
  "video_player \<Rightarrow> string \<Rightarrow> string \<Rightarrow> string list \<times> video_player" where
  "search_videos s search_term command =
     (let all_videos = get_all_videos s;
          matching_videos =
            filter (\<lambda>v. flag_reason s v = '''' \<and> sublist (lower search_term) (lower (title v)))
              all_videos
      in show_results s search_term matching_videos command)"

definition search_videos_tag ::
  "video_player \<Rightarrow> string \<Rightarrow> string \<Rightarrow> string list \<times> video_player" where
  "search_videos_tag s video_tag command =
     (let all_videos = get_all_videos s;
          matching_videos =
            filter (\<lambda>v. flag_reason s v = ''''
                      \<and> list_ex (\<lambda>tag. lower video_tag = lower tag) (tags v))
              all_videos
      in show_results s video_tag matching_videos command)"

subsection \<open>Flagging\<close>

definition flag_video :: "video_player \<Rightarrow> string \<Rightarrow> string \<Rightarrow> string list \<times> video_player" where
  "flag_video s vid flag_reason_arg =
     (case get_video s vid of
        None \<Rightarrow> ([''Cannot flag video: Video does not exist''], s)
      | Some video_to_flag \<Rightarrow>
          if flag_reason s video_to_flag \<noteq> '''' then
            ([''Cannot flag video: Video is already flagged''], s)
          else
            (let (out, s1) =
                   (case currently_playing_video s of
                      None \<Rightarrow> ([], s)
                    | Some cur \<Rightarrow> if vid = video_id cur then stop_video s else ([], s));
                 s2 = set_flag_reason s1 video_to_flag
                        (if flag_reason_arg \<noteq> '''' then flag_reason_arg else ''Not supplied'')
             in (out @ [''Successfully flagged video: '' @ title video_to_flag
                          @ '' (reason: '' @ flag_reason s2 video_to_flag @ '')''], s2)))"

definition allow_video :: "video_player \<Rightarrow> string \<Rightarrow> string list \<times> video_player" where
  "allow_video s vid =
     (case get_video s vid of
        None \<Rightarrow> ([''Cannot remove flag from video: Video does not exist''], s)
      | Some video_to_unflag \<Rightarrow>
          if flag_reason s video_to_unflag = '''' then
            ([''Cannot remove flag from video: Video is not flagged''], s)
          else
            ([''Successfully removed flag from video: '' @ title video_to_unflag],
             set_flag_reason s video_to_unflag ''''))"

section \<open>Notions of the specification\<close>

text \<open>
  The playback state of the specification: the playing video, if any, and the status.
  It is \<open>(None, None)\<close> when the player is empty.
\<close>

definition playback_state :: "video_player \<Rightarrow> video option \<times> int option" where
  "playback_state s = (currently_playing_video s, current_video_status s)"

text \<open>The status is set exactly when a video is playing, and then it is 1 or 0.\<close>

definition status_inv :: "video_player \<Rightarrow> bool" where
  "status_inv s =
     (case currently_playing_video s of
        None \<Rightarrow> current_video_status s = None
      | Some cur \<Rightarrow> current_video_status s = Some 1 \<or> current_video_status s = Some 0)"

text \<open>
  \<open>n\<close> consecutive calls of \<^verbatim>\<open>pause_video\<close>: what each call prints, in order, and the
  player after the last call.
\<close>

fun pause_calls :: "nat \<Rightarrow> video_player \<Rightarrow> string list list \<times> video_player" where
  "pause_calls 0 s = ([], s)"
| "pause_calls (Suc n) s =
     (let (out, s') = pause_video s; (outs, s'') = pause_calls n s' in (out # outs, s''))"

text \<open>
  What a search prints before it reads the selection, and the results of the two searches:
  the filters of \<^verbatim>\<open>search_videos\<close> and \<^verbatim>\<open>search_videos_tag\<close>, named.
\<close>

definition listing :: "string \<Rightarrow> video list \<Rightarrow> string list" where
  "listing query ms = (''Here are the results for '' @ query @ '':'') # numbered ms @ [prompt]"

definition title_matches :: "video_player \<Rightarrow> string \<Rightarrow> video list" where
  "title_matches s search_term =
     filter (\<lambda>v. flag_reason s v = '''' \<and> sublist (lower search_term) (lower (title v)))
       (get_all_videos s)"

definition tag_matches :: "video_player \<Rightarrow> string \<Rightarrow> video list" where
  "tag_matches s video_tag =
     filter (\<lambda>v. flag_reason s v = ''''
               \<and> list_ex (\<lambda>tag. lower video_tag = lower tag) (tags v))
       (get_all_videos s)"

subsection \<open>A small catalog\<close>

definition funny_dogs :: video where
  "funny_dogs =
     \<lparr>title = ''Funny Dogs'', video_id = ''funny_dogs_video_id'',
      tags = [''#dog'', ''#animal'']\<rparr>"

definition amazing_cats :: video where
  "amazing_cats =
     \<lparr>title = ''Amazing Cats'', video_id = ''amazing_cats_video_id'',
      tags = [''#cat'', ''#animal'']\<rparr>"

definition catalog :: "video list" where
  "catalog = [funny_dogs, amazing_cats]"

text \<open>A video without tags: in a library that holds it alone, no tag search has a result.\<close>

definition video_about_nothing :: video where
  "video_about_nothing =
     \<lparr>title = ''Video about nothing'', video_id = ''nothing_video_id'', tags = []\<rparr>"

text \<open>The player after \<^verbatim>\<open>play_video("amazing_cats_video_id")\<close> on a fresh player.\<close>

definition cats_playing :: video_player where
  "cats_playing = snd (play_video (init catalog) ''amazing_cats_video_id'')"

text \<open>Players with one playlist: just created, and with one member.\<close>

definition foo_created :: video_player where
  "foo_created = snd (create_playlist (init catalog) ''Foo'')"

definition fun_created :: video_player where
  "fun_created = snd (create_playlist (init catalog) ''Fun'')"

definition fun_with_cats :: video_player where
  "fun_with_cats = snd (add_to_playlist fun_created ''Fun'' ''amazing_cats_video_id'')"

lemmas catalog_defs =
  init_def catalog_def funny_dogs_def amazing_cats_def get_video_def flag_reason_def
  playback_state_def set_flag_reason_def

lemma cats_playing_eq:
  "cats_playing =
     \<lparr>video_library = catalog, flag_reasons = (\<lambda>_. ''''),
      currently_playing_video = Some amazing_cats, current_video_status = Some 1,
      all_playlists = []\<rparr>"
  by (simp add: cats_playing_def play_video_def catalog_defs)

section \<open>Playback\<close>

lemma get_video_id: "get_video s vid = Some v \<Longrightarrow> video_id v = vid"
  by (auto simp: get_video_def find_Some_iff)

text \<open>
  C1. When \<^verbatim>\<open>play_video\<close> fails, because the library has no video of the id or because the
  video found is flagged, the player is left as it was, and so is its playback state; an
  empty player stays empty.
\<close>

theorem play_video_failure:
  assumes "get_video s vid = None
           \<or> (\<exists>v. get_video s vid = Some v \<and> flag_reason s v \<noteq> '''')"
  shows "snd (play_video s vid) = s
         \<and> playback_state (snd (play_video s vid)) = playback_state s"
  using assms by (auto simp: play_video_def)

theorem play_video_failure_witness:
  "get_video (init catalog) ''missing_id'' = None
   \<and> playback_state (init catalog) = (None, None)
   \<and> playback_state (snd (play_video (init catalog) ''missing_id'')) = (None, None)"
  using play_video_failure [of "init catalog" "''missing_id''"]
  by (simp add: catalog_defs)

text \<open>
  C2. For an id whose video is in the library and not flagged, \<^verbatim>\<open>play_video\<close> succeeds:
  it prints the stop notice of the video that was playing, if there was one and whatever its
  status, then the play notice, and afterwards the video of that id is the playing one, with
  status 1. The video that was playing may be the same one: there is no special case.
\<close>

theorem play_video_success:
  assumes "get_video s vid = Some v" and "flag_reason s v = ''''"
  shows "playback_state (snd (play_video s vid)) = (Some v, Some 1)
         \<and> video_id v = vid
         \<and> fst (play_video s vid) =
             (case currently_playing_video s of
                None \<Rightarrow> [''Playing video: '' @ title v]
              | Some cur \<Rightarrow> [''Stopping video: '' @ title cur, ''Playing video: '' @ title v])
         \<and> snd (play_video s vid) =
             s\<lparr>currently_playing_video := Some v, current_video_status := Some 1\<rparr>"
  using assms get_video_id [OF assms(1)]
  by (simp add: play_video_def playback_state_def split: option.splits)

theorem play_video_success_witness:
  "get_video cats_playing ''amazing_cats_video_id'' = Some amazing_cats
   \<and> flag_reason cats_playing amazing_cats = ''''
   \<and> playback_state (snd (pause_video cats_playing)) = (Some amazing_cats, Some 0)
   \<and> play_video (snd (pause_video cats_playing)) ''amazing_cats_video_id'' =
       ([''Stopping video: Amazing Cats'', ''Playing video: Amazing Cats''], cats_playing)"
  using play_video_success
          [of "snd (pause_video cats_playing)" "''amazing_cats_video_id''" amazing_cats]
  by (simp add: cats_playing_eq pause_video_def play_video_def catalog_defs)

section \<open>Pausing\<close>

lemma pause_calls_paused:
  "currently_playing_video s = Some v \<Longrightarrow> current_video_status s = Some 0 \<Longrightarrow>
   pause_calls n s = (replicate n [''Video already paused: '' @ title v], s)"
  by (induction n) (simp_all add: pause_video_def)

lemma pause_video_paused:
  "currently_playing_video s = Some v \<Longrightarrow>
   currently_playing_video (snd (pause_video s)) = Some v
   \<and> current_video_status (snd (pause_video s)) = Some 0"
  by (simp add: pause_video_def)

lemma pause_calls_Suc:
  assumes "currently_playing_video s = Some v"
  shows "pause_calls (Suc n) s =
           (fst (pause_video s) # replicate n [''Video already paused: '' @ title v],
            snd (pause_video s))"
  using pause_calls_paused [of "snd (pause_video s)" v n] pause_video_paused [OF assms]
  by (simp add: split_def Let_def)

text \<open>
  C7. While a video is playing, from any status, \<open>n \<ge> 2\<close> consecutive calls of
  \<^verbatim>\<open>pause_video\<close> leave the player as the first call left it; each of the calls 2 .. n
  prints the already-paused notice and leaves the player as the call before it did.
\<close>

theorem pause_idempotent:
  assumes "currently_playing_video s = Some v" and "2 \<le> n"
  shows "snd (pause_calls n s) = snd (pause_video s)
         \<and> (\<forall>k. 2 \<le> k \<and> k \<le> n \<longrightarrow>
               fst (pause_calls n s) ! (k - 1) = [''Video already paused: '' @ title v]
               \<and> snd (pause_calls k s) = snd (pause_calls (k - 1) s))"
proof -
  have after: "snd (pause_calls k s) = snd (pause_video s)" if "1 \<le> k" for k
  proof -
    from that obtain j where "k = Suc j" by (cases k) auto
    then show ?thesis
      using pause_calls_Suc [OF assms(1)] by simp
  qed
  have out: "fst (pause_calls n s) ! (k - 1) = [''Video already paused: '' @ title v]"
    if "2 \<le> k" and "k \<le> n" for k
  proof -
    from that obtain m where n: "n = Suc m" by (cases n) auto
    from that obtain j where k: "k - 1 = Suc j" by (cases "k - 1") auto
    with that n have "j < m" by simp
    then show ?thesis
      unfolding n k using pause_calls_Suc [OF assms(1), of m] by simp
  qed
  have same: "snd (pause_calls k s) = snd (pause_calls (k - 1) s)" if "2 \<le> k" for k
    using that after [of k] after [of "k - 1"] by simp
  from assms(2) have "snd (pause_calls n s) = snd (pause_video s)"
    using after [of n] by simp
  with out same show ?thesis by blast
qed

theorem pause_idempotent_witness:
  "currently_playing_video cats_playing = Some amazing_cats
   \<and> pause_calls 3 cats_playing =
       ([[''Pausing video: Amazing Cats''], [''Video already paused: Amazing Cats''],
         [''Video already paused: Amazing Cats'']],
        snd (pause_video cats_playing))"
proof -
  have playing: "currently_playing_video cats_playing = Some amazing_cats"
    by (simp add: cats_playing_eq)
  from pause_idempotent [OF playing, of 3]
  have "snd (pause_calls 3 cats_playing) = snd (pause_video cats_playing)"
    by simp
  moreover have "fst (pause_calls 3 cats_playing) =
      [[''Pausing video: Amazing Cats''], [''Video already paused: Amazing Cats''],
       [''Video already paused: Amazing Cats'']]"
    by (simp add: cats_playing_eq pause_video_def numeral_3_eq_3 amazing_cats_def)
  ultimately show ?thesis
    using playing by (simp add: prod_eq_iff)
qed


section \<open>The status invariant, flagging\<close>

lemma status_inv_playback:
  "playback_state s' = playback_state s \<Longrightarrow> status_inv s' = status_inv s"
  by (simp add: playback_state_def status_inv_def split: option.splits)

lemma status_inv_play_video: "status_inv s \<Longrightarrow> status_inv (snd (play_video s vid))"
  by (auto simp: play_video_def status_inv_def split: option.splits)

lemma status_inv_stop_video: "status_inv s \<Longrightarrow> status_inv (snd (stop_video s))"
  by (simp add: stop_video_def status_inv_def split: option.splits)

lemma status_inv_play_random_video: "status_inv s \<Longrightarrow> status_inv (snd (play_random_video s r))"
  by (simp add: play_random_video_def Let_def status_inv_play_video)

lemma status_inv_pause_video: "status_inv s \<Longrightarrow> status_inv (snd (pause_video s))"
  by (simp add: pause_video_def status_inv_def split: option.splits)

lemma status_inv_continue_video: "status_inv s \<Longrightarrow> status_inv (snd (continue_video s))"
  by (simp add: continue_video_def status_inv_def split: option.splits)

lemma playback_state_set_flag_reason [simp]:
  "playback_state (set_flag_reason s v r) = playback_state s"
  by (simp add: set_flag_reason_def playback_state_def)

lemma playback_state_stop_video [simp]:
  "currently_playing_video s \<noteq> None \<Longrightarrow> playback_state (snd (stop_video s)) = (None, None)"
  by (auto simp: stop_video_def playback_state_def)

lemma flag_video_state:
  "snd (flag_video s vid r) =
     (case get_video s vid of
        None \<Rightarrow> s
      | Some v \<Rightarrow>
          if flag_reason s v \<noteq> '''' then s
          else set_flag_reason
                 (case currently_playing_video s of
                    None \<Rightarrow> s
                  | Some cur \<Rightarrow> if vid = video_id cur then snd (stop_video s) else s)
                 v (if r \<noteq> '''' then r else ''Not supplied''))"
  by (simp add: flag_video_def Let_def split_def split: option.splits)

lemma status_inv_flag_video: "status_inv s \<Longrightarrow> status_inv (snd (flag_video s vid r))"
  by (auto simp: flag_video_state status_inv_stop_video
        status_inv_playback [OF playback_state_set_flag_reason] split: option.splits)

lemma playback_state_allow_video: "playback_state (snd (allow_video s vid)) = playback_state s"
  by (simp add: allow_video_def split: option.splits)

lemma playback_state_create_playlist:
  "playback_state (snd (create_playlist s p)) = playback_state s"
  by (simp add: create_playlist_def Let_def playback_state_def)

lemma playback_state_add_to_playlist:
  "playback_state (snd (add_to_playlist s p vid)) = playback_state s"
  by (simp add: add_to_playlist_def Let_def playback_state_def split: option.splits)

lemma remove_from_playlist_returns:
  "\<exists>out s'. remove_from_playlist s p vid = Inr (out, s') \<and> playback_state s' = playback_state s"
  by (auto simp: remove_from_playlist_def Let_def remove_video_def playback_state_def
        dest: get_video_id split: option.splits)

lemma playback_state_clear_playlist:
  "playback_state (snd (clear_playlist s p)) = playback_state s"
  by (simp add: clear_playlist_def Let_def playback_state_def split: option.splits)

lemma playback_state_delete_playlist:
  "playback_state (snd (delete_playlist s p)) = playback_state s"
  by (simp add: delete_playlist_def Let_def playback_state_def)

lemma show_results_state:
  "snd (show_results s query ms command) = s
   \<or> (\<exists>vid. snd (show_results s query ms command) = snd (play_video s vid))"
  by (auto simp: show_results_def Let_def split_def process_command_def
        split: option.splits sum.splits)

lemma status_inv_show_results:
  "status_inv s \<Longrightarrow> status_inv (snd (show_results s query ms command))"
  using show_results_state [of s query ms command] status_inv_play_video [of s] by auto

text \<open>
  C9. The status is set exactly when a video is playing, and it is then 1 (playing) or 0
  (paused): this holds of a fresh player and every method keeps it. The methods that only
  display leave the player as it is, and \<^verbatim>\<open>remove_from_playlist\<close> never raises.
\<close>

theorem status_inv_preserved:
  "status_inv (init lib)
   \<and> (status_inv s \<longrightarrow>
        status_inv (snd (play_video s vid))
      \<and> status_inv (snd (stop_video s))
      \<and> status_inv (snd (play_random_video s r))
      \<and> status_inv (snd (pause_video s))
      \<and> status_inv (snd (continue_video s))
      \<and> status_inv (snd (flag_video s vid reason))
      \<and> status_inv (snd (allow_video s vid))
      \<and> status_inv (snd (create_playlist s p))
      \<and> status_inv (snd (add_to_playlist s p vid))
      \<and> (\<exists>out s'. remove_from_playlist s p vid = Inr (out, s') \<and> status_inv s')
      \<and> status_inv (snd (clear_playlist s p))
      \<and> status_inv (snd (delete_playlist s p))
      \<and> status_inv (snd (search_videos s p command))
      \<and> status_inv (snd (search_videos_tag s p command))
      \<and> snd (show_playing s) = s
      \<and> snd (show_playlist s p) = s
      \<and> snd (show_all_playlists s) = s
      \<and> snd (show_all_videos s) = s
      \<and> snd (number_of_videos s) = s)"
proof -
  have "status_inv (init lib)"
    by (simp add: init_def status_inv_def)
  moreover have "\<exists>out s'. remove_from_playlist s p vid = Inr (out, s') \<and> status_inv s'"
    if "status_inv s"
    using remove_from_playlist_returns [of s p vid] that status_inv_playback by blast
  moreover have "status_inv (snd (search_videos s p command))" if "status_inv s"
    using that by (simp add: search_videos_def Let_def status_inv_show_results)
  moreover have "status_inv (snd (search_videos_tag s p command))" if "status_inv s"
    using that by (simp add: search_videos_tag_def Let_def status_inv_show_results)
  moreover have "snd (show_playing s) = s"
    by (simp add: show_playing_def Let_def split: option.splits)
  moreover have "snd (show_playlist s p) = s"
    by (simp add: show_playlist_def Let_def split: option.splits)
  moreover have "snd (show_all_playlists s) = s"
    by (simp add: show_all_playlists_def)
  moreover have "snd (show_all_videos s) = s"
    by (simp add: show_all_videos_def Let_def)
  moreover have "snd (number_of_videos s) = s"
    by (simp add: number_of_videos_def)
  ultimately show ?thesis
    using status_inv_play_video status_inv_stop_video status_inv_play_random_video
      status_inv_pause_video status_inv_continue_video status_inv_flag_video
      status_inv_playback [OF playback_state_allow_video]
      status_inv_playback [OF playback_state_create_playlist]
      status_inv_playback [OF playback_state_add_to_playlist]
      status_inv_playback [OF playback_state_clear_playlist]
      status_inv_playback [OF playback_state_delete_playlist]
    by simp
qed


text \<open>
  C8. For an id whose video is in the library and not yet flagged, \<^verbatim>\<open>flag_video\<close>
  succeeds: the video's \<^verbatim>\<open>flag_reason\<close> becomes the reason given, or
  \<^verbatim>\<open>Not supplied\<close> when the reason is empty (the default of the parameter); and when the
  video is the playing one, whatever its status, it is stopped first, so that
  \<^verbatim>\<open>show_playing\<close> then reports that no video is playing.
\<close>

theorem flag_video_success:
  assumes "get_video s vid = Some v" and "flag_reason s v = ''''"
  shows "flag_reason (snd (flag_video s vid reason)) v =
           (if reason = '''' then ''Not supplied'' else reason)
         \<and> last (fst (flag_video s vid reason)) =
             ''Successfully flagged video: '' @ title v @ '' (reason: ''
               @ (if reason = '''' then ''Not supplied'' else reason) @ '')''
         \<and> (\<forall>cur. currently_playing_video s = Some cur \<and> video_id cur = vid \<longrightarrow>
               hd (fst (flag_video s vid reason)) = ''Stopping video: '' @ title cur
               \<and> playback_state (snd (flag_video s vid reason)) = (None, None)
               \<and> fst (show_playing (snd (flag_video s vid reason))) =
                   [''No video is currently playing''])"
  using assms
  by (auto simp: flag_video_def Let_def split_def stop_video_def show_playing_def
        flag_reason_def set_flag_reason_def playback_state_def split: option.splits)

theorem flag_video_success_witness:
  "get_video (snd (pause_video cats_playing)) ''amazing_cats_video_id'' = Some amazing_cats
   \<and> flag_reason (snd (pause_video cats_playing)) amazing_cats = ''''
   \<and> playback_state (snd (pause_video cats_playing)) = (Some amazing_cats, Some 0)
   \<and> flag_reason
         (snd (flag_video (snd (pause_video cats_playing)) ''amazing_cats_video_id'' ''''))
         amazing_cats = ''Not supplied''
   \<and> fst (show_playing
         (snd (flag_video (snd (pause_video cats_playing)) ''amazing_cats_video_id'' ''''))) =
       [''No video is currently playing'']"
  using flag_video_success
          [of "snd (pause_video cats_playing)" "''amazing_cats_video_id''" amazing_cats "''''"]
  by (simp add: cats_playing_eq pause_video_def catalog_defs)

text \<open>
  C10. When the video of the id is in the library, not flagged, and not the playing one (or
  nothing is playing), \<^verbatim>\<open>flag_video\<close> leaves the playback state as it is: only the
  \<^verbatim>\<open>flag_reason\<close> of the video changes. \<^verbatim>\<open>allow_video\<close> never changes the playback
  state.
\<close>

theorem flag_allow_frame:
  "(get_video s vid = Some v \<and> flag_reason s v = ''''
      \<and> (\<forall>cur. currently_playing_video s = Some cur \<longrightarrow> video_id cur \<noteq> vid) \<longrightarrow>
      playback_state (snd (flag_video s vid reason)) = playback_state s
      \<and> snd (flag_video s vid reason) =
          set_flag_reason s v (if reason \<noteq> '''' then reason else ''Not supplied''))
   \<and> playback_state (snd (allow_video s vid)) = playback_state s"
  by (auto simp: flag_video_state playback_state_allow_video split: option.splits)

theorem flag_allow_frame_witness:
  "get_video cats_playing ''funny_dogs_video_id'' = Some funny_dogs
   \<and> flag_reason cats_playing funny_dogs = ''''
   \<and> currently_playing_video cats_playing = Some amazing_cats
   \<and> video_id amazing_cats \<noteq> ''funny_dogs_video_id''
   \<and> playback_state (snd (flag_video cats_playing ''funny_dogs_video_id'' ''dogs''))
       = (Some amazing_cats, Some 1)
   \<and> playback_state (snd (allow_video cats_playing ''funny_dogs_video_id''))
       = (Some amazing_cats, Some 1)"
  using flag_allow_frame [of cats_playing "''funny_dogs_video_id''" funny_dogs "''dogs''"]
  by (simp add: cats_playing_eq catalog_defs)

theorem status_inv_preserved_witness:
  "status_inv cats_playing
   \<and> status_inv (snd (pause_video cats_playing))
   \<and> status_inv (snd (flag_video cats_playing ''amazing_cats_video_id'' ''''))
   \<and> playback_state (snd (flag_video cats_playing ''amazing_cats_video_id'' '''')) = (None, None)"
  using status_inv_preserved
          [of catalog cats_playing "''amazing_cats_video_id''" 0 "''''" "''Fun''" "''1''"]
  by (simp add: cats_playing_eq catalog_defs status_inv_def flag_video_state stop_video_def)


section \<open>Playlists\<close>

lemma lower_examples:
  "lower ''Foo'' = ''foo''" "lower ''foo'' = ''foo''" "lower ''FOO'' = ''foo''"
  "lower ''Fun'' = ''fun''"
  by code_simp+

lemma foo_created_eq:
  "foo_created = (init catalog)\<lparr>all_playlists := [(''foo'', Playlist ''Foo'')]\<rparr>"
  by (simp add: foo_created_def create_playlist_def lower_examples init_def)

lemma fun_created_eq:
  "fun_created = (init catalog)\<lparr>all_playlists := [(''fun'', Playlist ''Fun'')]\<rparr>"
  by (simp add: fun_created_def create_playlist_def lower_examples init_def)

lemma fun_with_cats_eq:
  "fun_with_cats =
     (init catalog)\<lparr>all_playlists :=
        [(''fun'', \<lparr>playlist_title = ''Fun'',
                    videos = [(''amazing_cats_video_id'', amazing_cats)]\<rparr>)]\<rparr>"
  by (simp add: fun_with_cats_def fun_created_eq add_to_playlist_def lower_examples
        catalog_defs Playlist_def add_video_def)

text \<open>
  The heading that \<^verbatim>\<open>show_playlist\<close> prints is built from its argument, not from the title
  of the playlist found: for the playlist created as \<^verbatim>\<open>Foo\<close>, \<^verbatim>\<open>show_playlist("FOO")\<close>
  prints \<^verbatim>\<open>FOO\<close>, and \<^verbatim>\<open>Foo\<close> occurs nowhere in what it prints.
\<close>

theorem show_playlist_title_counterexample:
  "fst (create_playlist (init catalog) ''Foo'') = [''Successfully created new playlist: Foo'']
   \<and> fst (show_playlist foo_created ''FOO'') =
       [''Showing playlist: FOO'', ''  No videos here yet'']
   \<and> \<not> list_ex (sublist ''Foo'') (fst (show_playlist foo_created ''FOO''))"
  by (simp add: foo_created_eq create_playlist_def show_playlist_def lower_examples init_def
        Playlist_def sublist_code)

text \<open>
  C3, as the code has it. Names are compared in lower case and the title given at creation
  is stored as given: when creating \<open>name\<close> succeeds and \<open>name'\<close> differs from it in case
  only, creating \<open>name'\<close> fails with the already-exists message and changes nothing;
  \<^verbatim>\<open>show_playlist\<close> of \<open>name'\<close> finds the playlist, whose title is \<open>name\<close>, and prints
  its heading with \<open>name'\<close>, the casing of the caller; \<^verbatim>\<open>show_all_playlists\<close> lists the
  title \<open>name\<close>.
\<close>

theorem playlist_names:
  assumes "lower name' = lower name" and "map_of (all_playlists s) (lower name) = None"
  shows "fst (create_playlist s name) = [''Successfully created new playlist: '' @ name]
         \<and> create_playlist (snd (create_playlist s name)) name' =
             ([''Cannot create playlist: A playlist with the same name already exists.''],
              snd (create_playlist s name))
         \<and> map_of (all_playlists (snd (create_playlist s name))) (lower name') =
             Some (Playlist name)
         \<and> playlist_title (Playlist name) = name
         \<and> show_playlist (snd (create_playlist s name)) name' =
             ([''Showing playlist: '' @ name', ''  No videos here yet''],
              snd (create_playlist s name))
         \<and> ''  '' @ name \<in> set (fst (show_all_playlists (snd (create_playlist s name))))"
proof -
  let ?s' = "snd (create_playlist s name)"
  have al: "all_playlists ?s' = AList.update (lower name) (Playlist name) (all_playlists s)"
    using assms(2) by (simp add: create_playlist_def)
  have look: "map_of (all_playlists ?s') (lower name') = Some (Playlist name)"
    using assms(1) by (simp add: al update_conv')
  have out: "fst (create_playlist s name) = [''Successfully created new playlist: '' @ name]"
    using assms(2) by (simp add: create_playlist_def)
  have again: "create_playlist ?s' name' =
      ([''Cannot create playlist: A playlist with the same name already exists.''], ?s')"
    using look by (simp add: create_playlist_def [of ?s'])
  have "show": "show_playlist ?s' name' =
      ([''Showing playlist: '' @ name', ''  No videos here yet''], ?s')"
    using look by (simp add: show_playlist_def [of ?s'] Playlist_def)
  have "(lower name', Playlist name) \<in> set (all_playlists ?s')"
    using look by (rule map_of_SomeD)
  then have "''  '' @ name \<in> set (fst (show_all_playlists ?s'))"
    by (force simp: show_all_playlists_def [of ?s'] Playlist_def)
  with out again look "show" show ?thesis
    by (simp add: Playlist_def)
qed

theorem playlist_names_witness:
  "lower ''FOO'' = lower ''Foo''
   \<and> map_of (all_playlists (init catalog)) (lower ''Foo'') = None
   \<and> fst (create_playlist foo_created ''FOO'') =
       [''Cannot create playlist: A playlist with the same name already exists.'']
   \<and> fst (show_playlist foo_created ''FOO'') =
       [''Showing playlist: FOO'', ''  No videos here yet'']
   \<and> fst (show_all_playlists foo_created) = [''Showing all playlists:'', ''  Foo'']"
proof -
  have same: "lower ''FOO'' = lower ''Foo''"
    by (simp add: lower_examples)
  have fresh: "map_of (all_playlists (init catalog)) (lower ''Foo'') = None"
    by (simp add: init_def)
  have listing: "fst (show_all_playlists foo_created) = [''Showing all playlists:'', ''  Foo'']"
    by (simp add: foo_created_eq show_all_playlists_def Playlist_def)
  from playlist_names [OF same fresh] same fresh listing show ?thesis
    by (simp add: foo_created_def)
qed

lemma delete_update_fresh:
  "map_of al k = None \<Longrightarrow> AList.delete k (AList.update k v al) = al"
  by (induction al) (auto split: if_splits)

text \<open>
  C6, as the code has it. For a playlist of the store and a video id that is not yet a
  member of it, \<^verbatim>\<open>add_to_playlist\<close> followed by \<^verbatim>\<open>remove_from_playlist\<close> returns
  normally and restores the player, hence the members of the playlist and their order:
  either both calls fail and change nothing, or the first appends the video and the second
  deletes it.
\<close>

theorem add_remove_roundtrip:
  assumes "map_of (all_playlists s) (lower p) = Some pl"
      and "map_of (videos pl) vid = None"
  shows "\<exists>out. remove_from_playlist (snd (add_to_playlist s p vid)) p vid = Inr (out, s)"
proof (cases "get_video s vid")
  case None
  with assms show ?thesis
    by (simp add: add_to_playlist_def remove_from_playlist_def)
next
  case (Some v)
  note v = Some
  show ?thesis
  proof (cases "flag_reason s v = ''''")
    case False
    with assms v show ?thesis
      by (simp add: add_to_playlist_def remove_from_playlist_def)
  next
    case True
    let ?s' = "s\<lparr>all_playlists := AList.update (lower p) (add_video pl v) (all_playlists s)\<rparr>"
    have id: "video_id v = vid" using v by (rule get_video_id)
    have added: "snd (add_to_playlist s p vid) = ?s'"
      using assms v True by (simp add: add_to_playlist_def)
    have v': "get_video ?s' vid = Some v"
      using v by (simp add: get_video_def)
    have look: "map_of (all_playlists ?s') (lower p) = Some (add_video pl v)"
      by (simp add: update_conv')
    have mem: "map_of (videos (add_video pl v)) vid = Some v"
      by (simp add: add_video_def id update_conv')
    have rem: "remove_video (add_video pl v) v = Inr pl"
      using assms(2) mem by (simp add: remove_video_def add_video_def id delete_update_fresh)
    have "remove_from_playlist ?s' p vid =
        Inr ([''Removed video from '' @ p @ '': '' @ title v], s)"
      using look v' mem rem assms(1)
      by (simp add: remove_from_playlist_def [of ?s'] update_triv)
    with added show ?thesis by simp
  qed
qed

theorem add_remove_roundtrip_witness:
  "map_of (all_playlists fun_created) (lower ''Fun'') = Some (Playlist ''Fun'')
   \<and> map_of (videos (Playlist ''Fun'')) ''amazing_cats_video_id'' = None
   \<and> snd (add_to_playlist fun_created ''Fun'' ''amazing_cats_video_id'') = fun_with_cats
   \<and> remove_from_playlist fun_with_cats ''Fun'' ''amazing_cats_video_id'' =
       Inr ([''Removed video from Fun: Amazing Cats''], fun_created)"
  using add_remove_roundtrip
          [of fun_created "''Fun''" "Playlist ''Fun''" "''amazing_cats_video_id''"]
  by (simp add: fun_with_cats_def [symmetric] lower_examples)
     (simp add: fun_created_eq fun_with_cats_eq remove_from_playlist_def lower_examples
        catalog_defs Playlist_def remove_video_def)

text \<open>
  For a video that is already a member, \<^verbatim>\<open>add_to_playlist\<close> fails and changes nothing,
  and \<^verbatim>\<open>remove_from_playlist\<close> then removes the video: the members are not restored.
\<close>

theorem add_remove_counterexample:
  "map_of (all_playlists fun_with_cats) ''fun'' =
     Some \<lparr>playlist_title = ''Fun'', videos = [(''amazing_cats_video_id'', amazing_cats)]\<rparr>
   \<and> add_to_playlist fun_with_cats ''Fun'' ''amazing_cats_video_id'' =
       ([''Cannot add video to Fun: Video already added''], fun_with_cats)
   \<and> remove_from_playlist (snd (add_to_playlist fun_with_cats ''Fun'' ''amazing_cats_video_id''))
         ''Fun'' ''amazing_cats_video_id'' =
       Inr ([''Removed video from Fun: Amazing Cats''], fun_created)
   \<and> map_of (all_playlists fun_created) ''fun'' =
       Some \<lparr>playlist_title = ''Fun'', videos = []\<rparr>
   \<and> map_of (all_playlists fun_created) ''fun'' \<noteq> map_of (all_playlists fun_with_cats) ''fun''"
  by (simp add: fun_created_eq fun_with_cats_eq add_to_playlist_def remove_from_playlist_def
        lower_examples catalog_defs Playlist_def remove_video_def)


section \<open>Search\<close>

lemma numbered_catalog:
  "numbered [funny_dogs, amazing_cats] =
     [''1) Funny Dogs (funny_dogs_video_id) [#dog #animal]'',
      ''2) Amazing Cats (amazing_cats_video_id) [#cat #animal]'']"
  by code_simp

lemma title_matches_catalog: "title_matches (init catalog) ''s'' = [funny_dogs, amazing_cats]"
  by code_simp

lemma tag_matches_catalog: "tag_matches (init catalog) ''#animal'' = [funny_dogs, amazing_cats]"
  by code_simp

lemma sorted_catalog: "sort_key title [funny_dogs, amazing_cats] = [amazing_cats, funny_dogs]"
  by code_simp

lemma nothing_matches:
  "title_matches (init [video_about_nothing]) ''nothing'' = [video_about_nothing]"
  "tag_matches (init [video_about_nothing]) ''#animal'' = []"
  by code_simp+

lemma parse_int_examples:
  "parse_int ''no'' = None" "parse_int ''1'' = Some 1" "parse_int ''2'' = Some 2"
  "parse_int ''9'' = Some 9"
  by code_simp+

lemma search_videos_eq:
  "search_videos s query command = show_results s query (title_matches s query) command"
  by (simp add: search_videos_def title_matches_def Let_def)

lemma search_videos_tag_eq:
  "search_videos_tag s tag command = show_results s tag (tag_matches s tag) command"
  by (simp add: search_videos_tag_def tag_matches_def Let_def)

lemma show_results_selection:
  assumes "ms \<noteq> []"
  shows "show_results s query ms command =
     (case parse_int command of
        None \<Rightarrow> (listing query ms, s)
      | Some n \<Rightarrow>
          if 1 \<le> n \<and> n \<le> length ms then
            (listing query ms @ fst (play_video s (video_id (ms ! (n - 1)))),
             snd (play_video s (video_id (ms ! (n - 1)))))
          else (listing query ms, s))"
  using assms
  by (simp add: show_results_def Let_def split_def process_command_def listing_def
        split: option.splits)

text \<open>
  C4. Both search methods print the matching videos in the order of the library, not in the
  order of their titles: the sorted copy is never read. On the catalog that holds
  \<^verbatim>\<open>Funny Dogs\<close> before \<^verbatim>\<open>Amazing Cats\<close>, both searches number \<^verbatim>\<open>Funny Dogs\<close> first,
  while the order by title puts \<^verbatim>\<open>Amazing Cats\<close> first.
\<close>

theorem search_display_order:
  "fst (search_videos_tag (init catalog) ''#animal'' ''no'') =
     [''Here are the results for #animal:'',
      ''1) Funny Dogs (funny_dogs_video_id) [#dog #animal]'',
      ''2) Amazing Cats (amazing_cats_video_id) [#cat #animal]'', prompt]
   \<and> fst (search_videos (init catalog) ''s'' ''no'') =
     [''Here are the results for s:'',
      ''1) Funny Dogs (funny_dogs_video_id) [#dog #animal]'',
      ''2) Amazing Cats (amazing_cats_video_id) [#cat #animal]'', prompt]
   \<and> sort_key title [funny_dogs, amazing_cats] = [amazing_cats, funny_dogs]"
proof -
  have by_tag: "fst (search_videos_tag (init catalog) ''#animal'' ''no'') =
     [''Here are the results for #animal:'',
      ''1) Funny Dogs (funny_dogs_video_id) [#dog #animal]'',
      ''2) Amazing Cats (amazing_cats_video_id) [#cat #animal]'', prompt]"
    by (simp add: search_videos_tag_eq show_results_selection tag_matches_catalog
          parse_int_examples listing_def numbered_catalog)
  have by_title: "fst (search_videos (init catalog) ''s'' ''no'') =
     [''Here are the results for s:'',
      ''1) Funny Dogs (funny_dogs_video_id) [#dog #animal]'',
      ''2) Amazing Cats (amazing_cats_video_id) [#cat #animal]'', prompt]"
    by (simp add: search_videos_eq show_results_selection title_matches_catalog
          parse_int_examples listing_def numbered_catalog)
  show ?thesis
    by (rule conjI [OF by_tag conjI [OF by_title sorted_catalog]])
qed

text \<open>
  C5. After a search with N results, N > 0, the line read selects a video or nothing. When
  the line is an integer within 1 .. N, the search prints the listing, then does exactly
  what \<^verbatim>\<open>play_video\<close> does for the id of the video at that place of the results. In
  every other case the search prints the listing only, returns normally and leaves the
  player as it was. This holds of each search method whenever that search has a result,
  whatever the other search would find.
\<close>

theorem selection_step:
  "(title_matches s query \<noteq> [] \<longrightarrow>
      (\<forall>n. parse_int command = Some n \<and> 1 \<le> n \<and> n \<le> length (title_matches s query) \<longrightarrow>
         search_videos s query command =
           (listing query (title_matches s query)
              @ fst (play_video s (video_id (title_matches s query ! (n - 1)))),
            snd (play_video s (video_id (title_matches s query ! (n - 1))))))
      \<and> ((\<forall>n. parse_int command = Some n \<longrightarrow> n < 1 \<or> length (title_matches s query) < n) \<longrightarrow>
           search_videos s query command = (listing query (title_matches s query), s)))
   \<and> (tag_matches s tag \<noteq> [] \<longrightarrow>
      (\<forall>n. parse_int command = Some n \<and> 1 \<le> n \<and> n \<le> length (tag_matches s tag) \<longrightarrow>
         search_videos_tag s tag command =
           (listing tag (tag_matches s tag)
              @ fst (play_video s (video_id (tag_matches s tag ! (n - 1)))),
            snd (play_video s (video_id (tag_matches s tag ! (n - 1))))))
      \<and> ((\<forall>n. parse_int command = Some n \<longrightarrow> n < 1 \<or> length (tag_matches s tag) < n) \<longrightarrow>
           search_videos_tag s tag command = (listing tag (tag_matches s tag), s)))"
  by (auto simp: search_videos_eq search_videos_tag_eq show_results_selection
        split: option.splits)

theorem selection_step_witness:
  "title_matches (init catalog) ''s'' = [funny_dogs, amazing_cats]
   \<and> tag_matches (init catalog) ''#animal'' = [funny_dogs, amazing_cats]
   \<and> parse_int ''2'' = Some 2
   \<and> search_videos (init catalog) ''s'' ''2'' =
       (listing ''s'' [funny_dogs, amazing_cats] @ [''Playing video: Amazing Cats''],
        cats_playing)
   \<and> search_videos_tag (init catalog) ''#animal'' ''2'' =
       (listing ''#animal'' [funny_dogs, amazing_cats] @ [''Playing video: Amazing Cats''],
        cats_playing)
   \<and> parse_int ''9'' = Some 9
   \<and> search_videos (init catalog) ''s'' ''9'' =
       (listing ''s'' [funny_dogs, amazing_cats], init catalog)
   \<and> search_videos_tag (init catalog) ''#animal'' ''9'' =
       (listing ''#animal'' [funny_dogs, amazing_cats], init catalog)
   \<and> title_matches (init [video_about_nothing]) ''nothing'' = [video_about_nothing]
   \<and> tag_matches (init [video_about_nothing]) ''#animal'' = []
   \<and> parse_int ''1'' = Some 1
   \<and> search_videos (init [video_about_nothing]) ''nothing'' ''1'' =
       (listing ''nothing'' [video_about_nothing] @ [''Playing video: Video about nothing''],
        (init [video_about_nothing])
          \<lparr>currently_playing_video := Some video_about_nothing,
           current_video_status := Some 1\<rparr>)"
proof -
  have p: "play_video (init catalog) ''amazing_cats_video_id'' =
      ([''Playing video: Amazing Cats''], cats_playing)"
    by (simp add: cats_playing_eq play_video_def catalog_defs)
  have q: "play_video (init [video_about_nothing]) ''nothing_video_id'' =
      ([''Playing video: Video about nothing''],
       (init [video_about_nothing])
         \<lparr>currently_playing_video := Some video_about_nothing,
          current_video_status := Some 1\<rparr>)"
    by (simp add: play_video_def init_def get_video_def flag_reason_def
          video_about_nothing_def)
  have nothing_id: "video_id video_about_nothing = ''nothing_video_id''"
    by (simp add: video_about_nothing_def)
  have selected: "search_videos (init catalog) ''s'' ''2'' =
       (listing ''s'' [funny_dogs, amazing_cats] @ [''Playing video: Amazing Cats''],
        cats_playing)
     \<and> search_videos_tag (init catalog) ''#animal'' ''2'' =
       (listing ''#animal'' [funny_dogs, amazing_cats] @ [''Playing video: Amazing Cats''],
        cats_playing)"
    using selection_step [of "init catalog" "''s''" "''2''" "''#animal''"] p
    by (simp add: title_matches_catalog tag_matches_catalog parse_int_examples
          amazing_cats_def)
  have nothing_selected: "search_videos (init catalog) ''s'' ''9'' =
       (listing ''s'' [funny_dogs, amazing_cats], init catalog)
     \<and> search_videos_tag (init catalog) ''#animal'' ''9'' =
       (listing ''#animal'' [funny_dogs, amazing_cats], init catalog)"
    using selection_step [of "init catalog" "''s''" "''9''" "''#animal''"]
    by (simp add: title_matches_catalog tag_matches_catalog parse_int_examples)
  have no_tags: "search_videos (init [video_about_nothing]) ''nothing'' ''1'' =
       (listing ''nothing'' [video_about_nothing] @ [''Playing video: Video about nothing''],
        (init [video_about_nothing])
          \<lparr>currently_playing_video := Some video_about_nothing,
           current_video_status := Some 1\<rparr>)"
    using selection_step [of "init [video_about_nothing]" "''nothing''" "''1''" "''#animal''"] q
      nothing_id
    by (simp add: nothing_matches parse_int_examples)
  from selected nothing_selected no_tags show ?thesis
    by (simp add: title_matches_catalog tag_matches_catalog parse_int_examples
          nothing_matches)
qed

text \<open>A number out of range and a line that is no number select nothing.\<close>

lemma no_selection_example:
  "search_videos (init catalog) ''s'' ''9'' = (listing ''s'' [funny_dogs, amazing_cats], init catalog)
   \<and> search_videos (init catalog) ''s'' ''no'' = (listing ''s'' [funny_dogs, amazing_cats], init catalog)"
  by (simp add: search_videos_eq show_results_selection title_matches_catalog parse_int_examples)

end
